theory Spec2Isabelle
  imports Complex_Main
begin

section \<open>ETF grid-trading analyzer: \<^verbatim>\<open>backend/services/etf_analyzer.py\<close>\<close>

text \<open>
  A shallow embedding of class \<^verbatim>\<open>ETFAnalyzer\<close>. Methods keep their names; Python's
  leading underscore of a private method is dropped, since an Isabelle name starts with a
  letter (\<^verbatim>\<open>_score_price_range\<close> is \<open>score_price_range\<close>).

  Numbers. A Python \<^verbatim>\<open>float\<close> that is finite is a \<open>real\<close>: arithmetic is exact, so
  rounding, overflow and signed zeros of IEEE doubles are outside this model. A Python
  \<^verbatim>\<open>int\<close> is an \<open>int\<close>. NumPy arithmetic does not raise on a division by zero but
  yields an infinity or a NaN; the values NumPy computes are therefore \<open>npfloat\<close>s,
  finite reals extended by the three special values. Python's own float division raises
  \<^verbatim>\<open>ZeroDivisionError\<close>, which is a value of \<open>py_error\<close>.

  Strings. \<open>string\<close> is a list of bytes; the Chinese labels of the source are their
  UTF-8 encodings. The fixed messages the evaluator collects are constructors of
  \<open>reason\<close> and \<open>warning\<close>; a message with formatted numbers carries the numbers.

  Dictionaries. A \<^verbatim>\<open>Dict\<close> with a known set of keys is a record; a key that some
  path leaves out has an \<open>option\<close> field, and \<^verbatim>\<open>d.get(k, default)\<close> reads \<open>None\<close>
  as the default.
\<close>

subsection \<open>Python and NumPy numbers\<close>

datatype py_error = ZeroDivisionError | ValueError | ImportError | LinAlgError

datatype npfloat = Fin real | PInf | NInf | NaN

definition signed_inf :: "real \<Rightarrow> npfloat" where
  \<comment> \<open>the infinity with the sign of \<open>s\<close>; NaN for \<open>s = 0\<close>\<close>
  "signed_inf s = (if s = 0 then NaN else if 0 < s then PInf else NInf)"

fun np_neg :: "npfloat \<Rightarrow> npfloat" where
  "np_neg (Fin x) = Fin (- x)"
| "np_neg PInf = NInf"
| "np_neg NInf = PInf"
| "np_neg NaN = NaN"

fun np_abs :: "npfloat \<Rightarrow> npfloat" where
  "np_abs (Fin x) = Fin \<bar>x\<bar>"
| "np_abs PInf = PInf"
| "np_abs NInf = PInf"
| "np_abs NaN = NaN"

fun np_add :: "npfloat \<Rightarrow> npfloat \<Rightarrow> npfloat" where
  "np_add (Fin x) (Fin y) = Fin (x + y)"
| "np_add NaN b = NaN"
| "np_add a NaN = NaN"
| "np_add PInf NInf = NaN"
| "np_add NInf PInf = NaN"
| "np_add PInf b = PInf"
| "np_add a PInf = PInf"
| "np_add NInf b = NInf"
| "np_add a NInf = NInf"

definition np_sub :: "npfloat \<Rightarrow> npfloat \<Rightarrow> npfloat" where
  "np_sub a b = np_add a (np_neg b)"

fun np_mul :: "npfloat \<Rightarrow> npfloat \<Rightarrow> npfloat" where
  "np_mul (Fin x) (Fin y) = Fin (x * y)"
| "np_mul NaN b = NaN"
| "np_mul a NaN = NaN"
| "np_mul (Fin x) PInf = signed_inf x"
| "np_mul (Fin x) NInf = signed_inf (- x)"
| "np_mul PInf (Fin y) = signed_inf y"
| "np_mul NInf (Fin y) = signed_inf (- y)"
| "np_mul PInf PInf = PInf"
| "np_mul NInf NInf = PInf"
| "np_mul PInf NInf = NInf"
| "np_mul NInf PInf = NInf"

fun np_div :: "npfloat \<Rightarrow> npfloat \<Rightarrow> npfloat" where
  \<comment> \<open>NumPy's true division: a zero divisor gives an infinity or NaN, never an exception\<close>
  "np_div (Fin x) (Fin y) = (if y = 0 then signed_inf x else Fin (x / y))"
| "np_div NaN b = NaN"
| "np_div a NaN = NaN"
| "np_div (Fin x) PInf = Fin 0"
| "np_div (Fin x) NInf = Fin 0"
| "np_div PInf (Fin y) = (if 0 \<le> y then PInf else NInf)"
| "np_div NInf (Fin y) = (if 0 \<le> y then NInf else PInf)"
| "np_div PInf b = NaN"
| "np_div NInf b = NaN"

fun np_lt :: "npfloat \<Rightarrow> npfloat \<Rightarrow> bool" where
  \<comment> \<open>\<^verbatim>\<open>a < b\<close>: every comparison with NaN is false\<close>
  "np_lt (Fin x) (Fin y) = (x < y)"
| "np_lt NaN b = False"
| "np_lt a NaN = False"
| "np_lt a NInf = False"
| "np_lt PInf b = False"
| "np_lt NInf b = True"
| "np_lt a PInf = True"

fun np_le :: "npfloat \<Rightarrow> npfloat \<Rightarrow> bool" where
  "np_le (Fin x) (Fin y) = (x \<le> y)"
| "np_le NaN b = False"
| "np_le a NaN = False"
| "np_le NInf b = True"
| "np_le a PInf = True"
| "np_le a NInf = False"
| "np_le PInf b = False"

definition np_gt :: "npfloat \<Rightarrow> npfloat \<Rightarrow> bool" where
  "np_gt a b = np_lt b a"

definition np_ge :: "npfloat \<Rightarrow> npfloat \<Rightarrow> bool" where
  "np_ge a b = np_le b a"

definition py_min :: "npfloat \<Rightarrow> npfloat \<Rightarrow> npfloat" where
  \<comment> \<open>the builtin \<^verbatim>\<open>min(a, b)\<close>: \<open>b\<close> only when \<open>b < a\<close>, so \<^verbatim>\<open>min(1.0, nan)\<close> is \<open>1.0\<close>\<close>
  "py_min a b = (if np_lt b a then b else a)"

definition py_truediv :: "real \<Rightarrow> real \<Rightarrow> py_error + real" where
  \<comment> \<open>\<^verbatim>\<open>a / b\<close> on Python floats\<close>
  "py_truediv a b = (if b = 0 then Inl ZeroDivisionError else Inr (a / b))"

definition py_int :: "real \<Rightarrow> int" where
  \<comment> \<open>\<^verbatim>\<open>int(x)\<close> on a finite float: truncation towards zero\<close>
  "py_int x = (if 0 \<le> x then \<lfloor>x\<rfloor> else \<lceil>x\<rceil>)"

definition mean :: "real list \<Rightarrow> real" where
  "mean xs = sum_list xs / real (length xs)"

definition std :: "real list \<Rightarrow> real" where
  \<comment> \<open>the population standard deviation (\<^verbatim>\<open>ddof=0\<close>)\<close>
  "std xs = sqrt (mean (map (\<lambda>x. (x - mean xs) ^ 2) xs))"

definition np_mean :: "real list \<Rightarrow> npfloat" where
  \<comment> \<open>\<^verbatim>\<open>np.mean\<close>: NaN on an empty array\<close>
  "np_mean xs = (if xs = [] then NaN else Fin (mean xs))"

definition np_std :: "real list \<Rightarrow> npfloat" where
  "np_std xs = (if xs = [] then NaN else Fin (std xs))"

fun fin_values :: "npfloat list \<Rightarrow> real list option" where
  "fin_values [] = Some []"
| "fin_values (Fin x # xs) = map_option (Cons x) (fin_values xs)"
| "fin_values (a # xs) = None"

definition np_std_ext :: "npfloat list \<Rightarrow> npfloat" where
  \<comment> \<open>\<^verbatim>\<open>np.std\<close> of an array that may hold special values: one of them makes the result NaN\<close>
  "np_std_ext xs = (case fin_values xs of None \<Rightarrow> NaN | Some ys \<Rightarrow> np_std ys)"

subsection \<open>Labels and messages\<close>

definition label_ranging :: string where
  \<comment> \<open>\<^verbatim>\<open>'\<close>zhendang\<^verbatim>\<open>'\<close>: oscillating, range-bound\<close>
  "label_ranging = [CHR 0xE9, CHR 0x9C, CHR 0x87, CHR 0xE8, CHR 0x8D, CHR 0xA1]"

definition label_weak_trend :: string where
  \<comment> \<open>\<^verbatim>\<open>'\<close>ruo qushi\<^verbatim>\<open>'\<close>: weak trend\<close>
  "label_weak_trend = [CHR 0xE5, CHR 0xBC, CHR 0xB1, CHR 0xE8, CHR 0xB6, CHR 0x8B, CHR 0xE5, CHR 0x8A, CHR 0xBF]"

definition label_strong_trend :: string where
  \<comment> \<open>\<^verbatim>\<open>'\<close>qiang qushi\<^verbatim>\<open>'\<close>: strong trend\<close>
  "label_strong_trend = [CHR 0xE5, CHR 0xBC, CHR 0xBA, CHR 0xE8, CHR 0xB6, CHR 0x8B, CHR 0xE5, CHR 0x8A, CHR 0xBF]"

definition label_uptrend :: string where
  "label_uptrend = [CHR 0xE4, CHR 0xB8, CHR 0x8A, CHR 0xE6, CHR 0xB6, CHR 0xA8, CHR 0xE8, CHR 0xB6, CHR 0x8B, CHR 0xE5, CHR 0x8A, CHR 0xBF]"

definition label_downtrend :: string where
  "label_downtrend = [CHR 0xE4, CHR 0xB8, CHR 0x8B, CHR 0xE8, CHR 0xB7, CHR 0x8C, CHR 0xE8, CHR 0xB6, CHR 0x8B, CHR 0xE5, CHR 0x8A, CHR 0xBF]"

definition label_vol_low :: string where
  "label_vol_low = [CHR 0xE4, CHR 0xBD, CHR 0x8E, CHR 0xE6, CHR 0xB3, CHR 0xA2, CHR 0xE5, CHR 0x8A, CHR 0xA8]"

definition label_vol_medium :: string where
  "label_vol_medium = [CHR 0xE4, CHR 0xB8, CHR 0xAD, CHR 0xE7, CHR 0xAD, CHR 0x89, CHR 0xE6, CHR 0xB3, CHR 0xA2, CHR 0xE5, CHR 0x8A, CHR 0xA8]"

definition label_vol_high :: string where
  "label_vol_high = [CHR 0xE9, CHR 0xAB, CHR 0x98, CHR 0xE6, CHR 0xB3, CHR 0xA2, CHR 0xE5, CHR 0x8A, CHR 0xA8]"

definition label_vol_extreme :: string where
  "label_vol_extreme = [CHR 0xE6, CHR 0x9E, CHR 0x81, CHR 0xE9, CHR 0xAB, CHR 0x98, CHR 0xE6, CHR 0xB3, CHR 0xA2, CHR 0xE5, CHR 0x8A, CHR 0xA8]"

definition label_amp_tiny :: string where
  "label_amp_tiny = [CHR 0xE6, CHR 0x9E, CHR 0x81, CHR 0xE5, CHR 0xB0, CHR 0x8F, CHR 0xE6, CHR 0x8C, CHR 0xAF, CHR 0xE5, CHR 0xB9, CHR 0x85]"

definition label_amp_small :: string where
  "label_amp_small = [CHR 0xE5, CHR 0xB0, CHR 0x8F, CHR 0xE6, CHR 0x8C, CHR 0xAF, CHR 0xE5, CHR 0xB9, CHR 0x85]"

definition label_amp_medium :: string where
  "label_amp_medium = [CHR 0xE4, CHR 0xB8, CHR 0xAD, CHR 0xE7, CHR 0xAD, CHR 0x89, CHR 0xE6, CHR 0x8C, CHR 0xAF, CHR 0xE5, CHR 0xB9, CHR 0x85]"

definition label_amp_large :: string where
  "label_amp_large = [CHR 0xE5, CHR 0xA4, CHR 0xA7, CHR 0xE6, CHR 0x8C, CHR 0xAF, CHR 0xE5, CHR 0xB9, CHR 0x85]"

definition label_amp_huge :: string where
  "label_amp_huge = [CHR 0xE6, CHR 0x9E, CHR 0x81, CHR 0xE5, CHR 0xA4, CHR 0xA7, CHR 0xE6, CHR 0x8C, CHR 0xAF, CHR 0xE5, CHR 0xB9, CHR 0x85]"

definition label_dist_normal :: string where
  "label_dist_normal = [CHR 0xE6, CHR 0xAD, CHR 0xA3, CHR 0xE6, CHR 0x80, CHR 0x81, CHR 0xE5, CHR 0x88, CHR 0x86, CHR 0xE5, CHR 0xB8, CHR 0x83]"

definition label_dist_right :: string where
  "label_dist_right = [CHR 0xE5, CHR 0x8F, CHR 0xB3, CHR 0xE5, CHR 0x81, CHR 0x8F, CHR 0xE5, CHR 0x88, CHR 0x86, CHR 0xE5, CHR 0xB8, CHR 0x83]"

definition label_dist_left :: string where
  "label_dist_left = [CHR 0xE5, CHR 0xB7, CHR 0xA6, CHR 0xE5, CHR 0x81, CHR 0x8F, CHR 0xE5, CHR 0x88, CHR 0x86, CHR 0xE5, CHR 0xB8, CHR 0x83]"

definition label_dist_other :: string where
  "label_dist_other = [CHR 0xE5, CHR 0x85, CHR 0xB6, CHR 0xE4, CHR 0xBB, CHR 0x96, CHR 0xE5, CHR 0x88, CHR 0x86, CHR 0xE5, CHR 0xB8, CHR 0x83]"

definition label_dist_unclassifiable :: string where
  "label_dist_unclassifiable = [CHR 0xE6, CHR 0x97, CHR 0xA0, CHR 0xE6, CHR 0xB3, CHR 0x95, CHR 0xE5, CHR 0x88, CHR 0x86, CHR 0xE6, CHR 0x9E, CHR 0x90]"

definition msg_insufficient_data :: string where
  \<comment> \<open>the message of the insufficient-data record: "not enough data, no analysis possible"\<close>
  "msg_insufficient_data =
    [CHR 0xE6, CHR 0x95, CHR 0xB0, CHR 0xE6, CHR 0x8D, CHR 0xAE, CHR 0xE4, CHR 0xB8, CHR 0x8D,
     CHR 0xE8, CHR 0xB6, CHR 0xB3, CHR 0xEF, CHR 0xBC, CHR 0x8C, CHR 0xE6, CHR 0x97, CHR 0xA0,
     CHR 0xE6, CHR 0xB3, CHR 0x95, CHR 0xE8, CHR 0xBF, CHR 0x9B, CHR 0xE8, CHR 0xA1, CHR 0x8C,
     CHR 0xE5, CHR 0x88, CHR 0x86, CHR 0xE6, CHR 0x9E, CHR 0x90]"

text \<open>
  The disqualifying reasons of \<^verbatim>\<open>evaluate_adaptability\<close>, in the order of its sections:
  amplitude too small to cover the trading cost, the market trends too strongly, the
  liquidity is insufficient.
\<close>

datatype reason = AmplitudeTooSmall | StrongTrend | LiquidityInsufficient

text \<open>
  The warnings. The first four are the fixed texts of \<^verbatim>\<open>evaluate_adaptability\<close>
  (amplitude on the low side, volatility on the low side, volatility too high, liquidity
  mediocre). The others are the formatted texts of the grid-parameter scorer, each with
  the values it prints: the actual value and the recommended band for a range or a count
  that is too small or too large, and the match score for a frequency mismatch.
\<close>

datatype warning =
    AmplitudeLow
  | VolatilityLow
  | VolatilityHigh
  | LiquidityFair
  | RangeTooSmall real real real
  | RangeTooLarge real real real
  | CountTooFew int int int
  | CountTooMany int int int
  | FrequencyMismatch real

definition get_or :: "'a option \<Rightarrow> 'a \<Rightarrow> 'a" where
  \<comment> \<open>\<^verbatim>\<open>d.get(key, default)\<close>, for a key whose entry is the option \<open>v\<close>\<close>
  "get_or v d = (case v of None \<Rightarrow> d | Some x \<Rightarrow> x)"

subsection \<open>The data model\<close>

text \<open>One row of the historical data frame: the columns the analyzer reads.\<close>

record bar =
  trade_date :: nat
  close :: real
  vol :: real
  amplitude :: real

record price_distribution_stats =
  q25 :: real
  q50 :: real
  q75 :: real
  iqr :: real
  skewness :: npfloat
  kurtosis :: npfloat
  distribution_type :: string

text \<open>
  The dictionary \<^verbatim>\<open>analyze_etf_characteristics\<close> returns and \<^verbatim>\<open>evaluate_adaptability\<close>
  reads. Every key is optional: the error record holds \<^verbatim>\<open>error\<close> and \<^verbatim>\<open>data_points\<close>
  only, and the evaluator reads each key with a default. The volatility and the two
  scores come out of NumPy divisions, so they are \<open>npfloat\<close>s.
\<close>

record analysis_result =
  error :: "string option"
  current_price :: "real option"
  avg_price :: "real option"
  price_std :: "real option"
  price_range :: "real option"
  volatility :: "npfloat option"
  volatility_level :: "string option"
  avg_amplitude :: "real option"
  max_amplitude :: "real option"
  min_amplitude :: "real option"
  amplitude_std :: "real option"
  amplitude_level :: "string option"
  avg_volume :: "real option"
  volume_std :: "real option"
  liquidity_score :: "npfloat option"
  trend_slope :: "real option"
  trend_direction :: "string option"
  oscillation_score :: "npfloat option"
  market_character :: "string option"
  price_distribution :: "price_distribution_stats option"
  data_points :: "nat option"
  start_date :: "nat option"
  end_date :: "nat option"
  analysis_date :: "string option"

definition empty_dict :: analysis_result where
  \<comment> \<open>the dictionary with no key\<close>
  "empty_dict = \<lparr>error = None, current_price = None, avg_price = None, price_std = None,
     price_range = None, volatility = None, volatility_level = None, avg_amplitude = None,
     max_amplitude = None, min_amplitude = None, amplitude_std = None,
     amplitude_level = None, avg_volume = None, volume_std = None, liquidity_score = None,
     trend_slope = None, trend_direction = None, oscillation_score = None,
     market_character = None, price_distribution = None, data_points = None,
     start_date = None, end_date = None, analysis_date = None\<rparr>"

record grid_params =
  price_range_ratio :: "real option"
  grid_count :: "int option"
  frequency_match_score :: "real option"
  predicted_daily_triggers :: "real option"

text \<open>
  \<^verbatim>\<open>calculation_basis\<close> is a formatted text: the formula with the amplitude, the
  frequency multiplier and the safety margin it prints, or the note that defaults are used.
\<close>

datatype basis = Formula real real real | DefaultValues

record optimal_range =
  base_range :: real
  min_range :: real
  max_range :: real
  calculation_basis :: basis

record optimal_count =
  base_count :: int
  min_count :: int
  max_count :: int
  frequency_type :: string

text \<open>
  The three sub-dictionaries of the grid-parameter evaluation. Their keys \<^verbatim>\<open>score\<close>,
  \<^verbatim>\<open>actual\<close>, \<^verbatim>\<open>optimal\<close> and \<^verbatim>\<open>status\<close> carry a prefix here, since field names
  of different records share one name space.
\<close>

record range_evaluation =
  range_score :: int
  range_actual :: real
  range_optimal :: optimal_range
  range_status :: string

record count_evaluation =
  count_score :: int
  count_actual :: int
  count_optimal :: optimal_count
  count_status :: string

record frequency_matching =
  target_triggers :: real
  predicted_triggers :: real
  match_score :: real
  bonus_score :: int

record grid_params_evaluation =
  total_score :: int
  range_evaluation :: range_evaluation
  count_evaluation :: count_evaluation
  frequency_matching :: frequency_matching
  eval_warnings :: "warning list"
  suggestions :: "string list"

record dimension_scores =
  amplitude_score :: int
  volatility_score :: int
  market_score :: int
  liquidity_points :: int
  grid_params_score :: int

text \<open>
  The recommendation is a text of up to four lines: the headline (suitable or not), the
  list of reasons, the list of warnings (headed "points to note" for a suitable fund and
  "other risks" otherwise) and the score line. Each line is one part, in the order of the
  text.
\<close>

datatype recommendation_part =
    Headline bool
  | MainReasons "reason list"
  | PointsToNote "warning list"
  | OtherRisks "warning list"
  | ScoreLine int

text \<open>
  The verdict. The error verdict has the keys \<^verbatim>\<open>is_suitable\<close>, \<^verbatim>\<open>reason\<close>,
  \<^verbatim>\<open>score\<close> and \<^verbatim>\<open>dimension_scores\<close>; the regular verdict has no \<^verbatim>\<open>reason\<close> but
  all the others.
\<close>

record verdict =
  is_suitable :: bool
  score :: int
  dimension_scores :: dimension_scores
  reason :: "string option"
  max_score :: "int option"
  grid_params_details :: "grid_params_evaluation option"
  reasons :: "reason list option"
  warnings :: "warning list option"
  recommendation :: "recommendation_part list option"

subsection \<open>The optimal-parameter calculator\<close>

text \<open>
  \<^verbatim>\<open>_calculate_optimal_price_range\<close>. Its body multiplies and compares floats and formats
  them, none of which raises, so its \<^verbatim>\<open>except\<close> branch (the default band 0.10 to 0.25)
  is never taken and has no counterpart here.
\<close>

definition calculate_optimal_price_range :: "real \<Rightarrow> real \<Rightarrow> optimal_range" where
  "calculate_optimal_price_range avg_amp target =
    (let frequency_multiplier = target * 1.2;
         safety_margin = 1.5;
         base = avg_amp * frequency_multiplier * safety_margin;
         min_r = max 0.02 (base * 0.8);
         max_r = min 0.50 (base * 1.3);
         min_r' = (if min_r \<ge> max_r then max_r * 0.8 else min_r)
     in \<lparr>base_range = base, min_range = min_r', max_range = max_r,
         calculation_basis = Formula avg_amp frequency_multiplier safety_margin\<rparr>)"

definition base_count_of :: "real \<Rightarrow> real \<Rightarrow> real \<Rightarrow> py_error + int" where
  \<comment> \<open>\<^verbatim>\<open>int(base_range / (avg_amplitude / target_triggers))\<close>: either division may raise\<close>
  "base_count_of base avg_amp target =
    (case py_truediv avg_amp target of
       Inl e \<Rightarrow> Inl e
     | Inr step \<Rightarrow>
        (case py_truediv base step of
           Inl e \<Rightarrow> Inl e
         | Inr q \<Rightarrow> Inr (py_int q)))"

definition count_band_try :: "string \<Rightarrow> real \<Rightarrow> real \<Rightarrow> real \<Rightarrow> py_error + optimal_count" where
  \<comment> \<open>the \<^verbatim>\<open>try\<close> block of \<^verbatim>\<open>_calculate_optimal_grid_count\<close>\<close>
  "count_band_try ftype target base avg_amp =
    (case
       (if ftype = ''high'' then
          map_sum id (\<lambda>bc. (bc, max 12 (bc - 5), min 30 (bc + 8))) (base_count_of base avg_amp target)
        else if ftype = ''medium'' then
          map_sum id (\<lambda>bc. (bc, max 6 (bc - 3), min 18 (bc + 5))) (base_count_of base avg_amp target)
        else
          map_sum id (\<lambda>bc. (bc, max 3 (bc - 2), min 10 (bc + 3))) (base_count_of base avg_amp target))
     of
       Inl e \<Rightarrow> Inl e
     | Inr (bc, min_c, max_c) \<Rightarrow>
         Inr \<lparr>base_count = bc, min_count = min_c,
              max_count = (if min_c \<ge> max_c then min_c + 3 else max_c),
              frequency_type = ftype\<rparr>)"

definition default_ranges :: "(string \<times> int \<times> int) list" where
  "default_ranges = [(''high'', 12, 25), (''medium'', 6, 15), (''low'', 3, 8)]"

definition default_count_band :: "string \<Rightarrow> optimal_count" where
  \<comment> \<open>the \<^verbatim>\<open>except\<close> block of \<^verbatim>\<open>_calculate_optimal_grid_count\<close>\<close>
  "default_count_band ftype =
    (let d = get_or (map_of default_ranges ftype) (get_or (map_of default_ranges ''medium'') (6, 15))
     in \<lparr>base_count = (fst d + snd d) div 2, min_count = fst d, max_count = snd d,
         frequency_type = ftype\<rparr>)"

definition calculate_optimal_grid_count :: "string \<Rightarrow> real \<Rightarrow> real \<Rightarrow> real \<Rightarrow> optimal_count" where
  "calculate_optimal_grid_count ftype target base avg_amp =
    (case count_band_try ftype target base avg_amp of
       Inr band \<Rightarrow> band
     | Inl e \<Rightarrow> default_count_band ftype)"

subsection \<open>The grid-parameter scorer\<close>

definition deviation_score :: "real \<Rightarrow> int" where
  \<comment> \<open>the ladder both scorers apply to the relative deviation from the band's centre\<close>
  "deviation_score deviation =
    (if deviation < 0.2 then 4
     else if deviation < 0.4 then 3
     else if deviation < 0.6 then 2
     else if deviation < 1.0 then 1
     else 0)"

definition score_price_range :: "real \<Rightarrow> optimal_range \<Rightarrow> int" where
  "score_price_range actual opt =
    (if min_range opt \<le> actual \<and> actual \<le> max_range opt then 5
     else
       (let optimal_center = (min_range opt + max_range opt) / 2
        in case py_truediv \<bar>actual - optimal_center\<bar> optimal_center of
             Inl e \<Rightarrow> 2
           | Inr deviation \<Rightarrow> deviation_score deviation))"

definition score_grid_count :: "int \<Rightarrow> optimal_count \<Rightarrow> int" where
  "score_grid_count actual opt =
    (if min_count opt \<le> actual \<and> actual \<le> max_count opt then 5
     else
       (let optimal_center = real_of_int (min_count opt + max_count opt) / 2
        in case py_truediv \<bar>real_of_int actual - optimal_center\<bar> optimal_center of
             Inl e \<Rightarrow> 2
           | Inr deviation \<Rightarrow> deviation_score deviation))"

definition target_daily_frequencies :: "(string \<times> real) list" where
  "target_daily_frequencies = [(''high'', 5.5), (''medium'', 2.5), (''low'', 1.0)]"

text \<open>
  \<^verbatim>\<open>_evaluate_grid_params_with_frequency_matching\<close>. Each callee catches its own
  errors and the dictionary reads have defaults, so nothing in its \<^verbatim>\<open>try\<close> block raises
  for dictionaries of the types above; the \<^verbatim>\<open>except\<close> branch (total score 0) has no
  counterpart here.
\<close>

definition evaluate_grid_params_with_frequency_matching ::
  "analysis_result \<Rightarrow> grid_params \<Rightarrow> string \<Rightarrow> grid_params_evaluation" where
  "evaluate_grid_params_with_frequency_matching ar gp user_frequency =
    (let target = get_or (map_of target_daily_frequencies user_frequency) 2.5;
         avg_amp = get_or (avg_amplitude ar) 0.02;
         opt_range = calculate_optimal_price_range avg_amp target;
         opt_count = calculate_optimal_grid_count user_frequency target (base_range opt_range) avg_amp;
         actual_range = get_or (price_range_ratio gp) 0;
         actual_count = get_or (grid_count gp) 0;
         r_score = score_price_range actual_range opt_range;
         c_score = score_grid_count actual_count opt_count;
         fms = get_or (frequency_match_score gp) 0;
         bonus = (if fms > 0.8 then 2 else if fms > 0.6 then 1 else 0);
         total = min 10 (r_score + c_score + bonus);
         ws = (if r_score < 3 then
                 (if actual_range < min_range opt_range
                  then [RangeTooSmall actual_range (min_range opt_range) (max_range opt_range)]
                  else [RangeTooLarge actual_range (min_range opt_range) (max_range opt_range)])
               else [])
            @ (if c_score < 3 then
                 (if actual_count < min_count opt_count
                  then [CountTooFew actual_count (min_count opt_count) (max_count opt_count)]
                  else [CountTooMany actual_count (min_count opt_count) (max_count opt_count)])
               else [])
            @ (if fms < 0.6 then [FrequencyMismatch fms] else [])
     in \<lparr>total_score = total,
         range_evaluation = \<lparr>range_score = r_score, range_actual = actual_range,
            range_optimal = opt_range,
            range_status = (if r_score \<ge> 4 then ''good'' else ''needs_adjustment'')\<rparr>,
         count_evaluation = \<lparr>count_score = c_score, count_actual = actual_count,
            count_optimal = opt_count,
            count_status = (if c_score \<ge> 4 then ''good'' else ''needs_adjustment'')\<rparr>,
         frequency_matching = \<lparr>target_triggers = target,
            predicted_triggers = get_or (predicted_daily_triggers gp) 0,
            match_score = fms, bonus_score = bonus\<rparr>,
         eval_warnings = ws,
         suggestions = []\<rparr>)"

subsection \<open>The suitability evaluator\<close>

text \<open>
  The four numbered sections of \<^verbatim>\<open>evaluate_adaptability\<close> that score one dimension each.
  A section adds its points to \<^verbatim>\<open>score\<close> and may append to \<^verbatim>\<open>reasons\<close> and to
  \<^verbatim>\<open>warnings\<close>; here it returns the points and what it appends.
\<close>

definition amplitude_section :: "real \<Rightarrow> int \<times> reason list \<times> warning list" where
  "amplitude_section avg_amp =
    (if avg_amp \<ge> 2.0 then (30, [], [])
     else if avg_amp \<ge> 1.5 then (20, [], [AmplitudeLow])
     else (0, [AmplitudeTooSmall], []))"

definition volatility_section :: "npfloat \<Rightarrow> int \<times> reason list \<times> warning list" where
  "volatility_section v =
    (if np_le (Fin 15) v \<and> np_le v (Fin 40) then (25, [], [])
     else if np_lt v (Fin 15) then (15, [], [VolatilityLow])
     else (10, [], [VolatilityHigh]))"

definition market_section :: "string \<Rightarrow> int \<times> reason list \<times> warning list" where
  "market_section mc =
    (if mc = label_ranging then (20, [], [])
     else if mc = label_weak_trend then (15, [], [])
     else if mc = label_strong_trend then (5, [StrongTrend], [])
     else (0, [], []))"

definition liquidity_section :: "npfloat \<Rightarrow> real \<Rightarrow> int \<times> reason list \<times> warning list" where
  "liquidity_section ls avg_vol =
    (if np_ge ls (Fin 0.7) \<and> avg_vol \<ge> 1000000 then (15, [], [])
     else if np_ge ls (Fin 0.5) \<and> avg_vol \<ge> 500000 then (10, [], [LiquidityFair])
     else (0, [LiquidityInsufficient], []))"

definition generate_recommendation ::
  "bool \<Rightarrow> int \<Rightarrow> reason list \<Rightarrow> warning list \<Rightarrow> recommendation_part list" where
  "generate_recommendation suitable sc rs ws =
    (if suitable then
       [Headline True] @ (if ws \<noteq> [] then [PointsToNote ws] else [])
     else
       [Headline False] @ (if rs \<noteq> [] then [MainReasons rs] else [])
         @ (if ws \<noteq> [] then [OtherRisks ws] else []))
    @ [ScoreLine sc]"

definition zero_scores :: dimension_scores where
  "zero_scores = \<lparr>amplitude_score = 0, volatility_score = 0, market_score = 0,
     liquidity_points = 0, grid_params_score = 0\<rparr>"

text \<open>
  \<^verbatim>\<open>evaluate_adaptability\<close>. As in the scorer, nothing in its \<^verbatim>\<open>try\<close> block raises
  for dictionaries of the types above, and the \<^verbatim>\<open>except\<close> branch has no counterpart.
  The key \<^verbatim>\<open>liquidity_score\<close> of \<^verbatim>\<open>dimension_scores\<close> is the field
  \<open>liquidity_points\<close>.
\<close>

definition evaluate_adaptability :: "analysis_result \<Rightarrow> grid_params \<Rightarrow> string \<Rightarrow> verdict" where
  "evaluate_adaptability ar gp user_frequency =
    (case error ar of
       Some e \<Rightarrow>
         \<lparr>is_suitable = False, score = 0, dimension_scores = zero_scores, reason = Some e,
          max_score = None, grid_params_details = None, reasons = None, warnings = None,
          recommendation = None\<rparr>
     | None \<Rightarrow>
        (let (s1, r1, w1) = amplitude_section (get_or (avg_amplitude ar) 0);
             (s2, r2, w2) = volatility_section (get_or (volatility ar) (Fin 0));
             (s3, r3, w3) = market_section (get_or (market_character ar) []);
             (s4, r4, w4) = liquidity_section (get_or (liquidity_score ar) (Fin 0))
                              (get_or (avg_volume ar) 0);
             g = evaluate_grid_params_with_frequency_matching ar gp user_frequency;
             sc = s1 + s2 + s3 + s4 + total_score g;
             rs = r1 @ r2 @ r3 @ r4;
             ws = w1 @ w2 @ w3 @ w4 @ (if total_score g < 8 then eval_warnings g else []);
             suitable = (sc \<ge> 60 \<and> length rs = 0)
         in \<lparr>is_suitable = suitable, score = sc,
             dimension_scores = \<lparr>amplitude_score = s1, volatility_score = s2,
                market_score = s3, liquidity_points = s4, grid_params_score = total_score g\<rparr>,
             reason = None, max_score = Some 100, grid_params_details = Some g,
             reasons = Some rs, warnings = Some ws,
             recommendation = Some (generate_recommendation suitable sc rs ws)\<rparr>))"

subsection \<open>The characteristic analyzer\<close>

text \<open>
  The analyzer calls three routines of NumPy and SciPy whose code is not part of the
  repository: the least-squares fit, the percentiles and the two moment statistics. They
  are parameters of the model, and each may raise. \<^verbatim>\<open>np.mean\<close>, \<^verbatim>\<open>np.std\<close>, \<^verbatim>\<open>np.max\<close>,
  \<^verbatim>\<open>np.min\<close> and \<^verbatim>\<open>np.diff\<close> are written out.
\<close>

record numeric_library =
  np_polyfit :: "real list \<Rightarrow> real list \<Rightarrow> nat \<Rightarrow> py_error + real list"
  np_percentile :: "real list \<Rightarrow> real list \<Rightarrow> py_error + real list"
  stats_skew :: "real list \<Rightarrow> py_error + npfloat"
  stats_kurtosis :: "real list \<Rightarrow> py_error + npfloat"

definition calculate_trend_slope :: "numeric_library \<Rightarrow> real list \<Rightarrow> real" where
  \<comment> \<open>\<^verbatim>\<open>slope, _ = np.polyfit(x, prices, 1)\<close>; any exception, also of the unpacking, gives 0\<close>
  "calculate_trend_slope lib prices =
    (case np_polyfit lib (map real [0..<length prices]) prices 1 of
       Inr [slope, intercept] \<Rightarrow> slope
     | _ \<Rightarrow> 0)"

definition determine_trend_direction :: "real \<Rightarrow> string" where
  "determine_trend_direction slope =
    (if slope > 0.01 then label_uptrend
     else if slope < - 0.01 then label_downtrend
     else label_ranging)"

text \<open>
  \<^verbatim>\<open>_calculate_oscillation_score\<close> and \<^verbatim>\<open>_calculate_liquidity_score\<close>. The quotients
  are NumPy's, so a zero mean gives an infinity or a NaN and no exception: the \<^verbatim>\<open>except\<close>
  branches (score 0) have no counterpart here.
\<close>

definition calculate_oscillation_score :: "real list \<Rightarrow> real list \<Rightarrow> npfloat" where
  "calculate_oscillation_score prices amplitudes =
    (let price_cv = np_div (np_std prices) (np_mean prices);
         amplitude_cv = np_div (np_std amplitudes) (np_mean amplitudes)
     in py_min (Fin 1) (np_div (np_add (np_mul price_cv (Fin 10)) amplitude_cv) (Fin 2)))"

definition calculate_liquidity_score :: "real list \<Rightarrow> real \<Rightarrow> npfloat" where
  "calculate_liquidity_score volumes avg_vol =
    (let volume_cv = np_div (np_std volumes) (np_mean volumes);
         volume_adequacy = min 1 (avg_vol / 1000000)
     in np_add (np_mul (np_sub (Fin 1) (py_min (Fin 1) volume_cv)) (Fin 0.5))
               (Fin (volume_adequacy * 0.5)))"

definition classify_distribution :: "npfloat \<Rightarrow> npfloat \<Rightarrow> string" where
  "classify_distribution skw kur =
    (if np_lt (np_abs skw) (Fin 0.5) \<and> np_lt (np_abs kur) (Fin 0.5) then label_dist_normal
     else if np_gt skw (Fin 0.5) then label_dist_right
     else if np_lt skw (Fin (- 0.5)) then label_dist_left
     else label_dist_other)"

definition distribution_fallback :: price_distribution_stats where
  "distribution_fallback = \<lparr>q25 = 0, q50 = 0, q75 = 0, iqr = 0, skewness = Fin 0,
     kurtosis = Fin 0, distribution_type = label_dist_unclassifiable\<rparr>"

definition analyze_price_distribution :: "numeric_library \<Rightarrow> real list \<Rightarrow> price_distribution_stats" where
  "analyze_price_distribution lib prices =
    (case np_percentile lib prices [25, 50, 75] of
       Inr [p25, p50, p75] \<Rightarrow>
         (case stats_skew lib prices of
            Inl e \<Rightarrow> distribution_fallback
          | Inr skw \<Rightarrow>
             (case stats_kurtosis lib prices of
                Inl e \<Rightarrow> distribution_fallback
              | Inr kur \<Rightarrow>
                  \<lparr>q25 = p25, q50 = p50, q75 = p75, iqr = p75 - p25, skewness = skw,
                   kurtosis = kur, distribution_type = classify_distribution skw kur\<rparr>))
     | _ \<Rightarrow> distribution_fallback)"

definition classify_volatility :: "npfloat \<Rightarrow> string" where
  "classify_volatility v =
    (if np_lt v (Fin 10) then label_vol_low
     else if np_lt v (Fin 25) then label_vol_medium
     else if np_lt v (Fin 40) then label_vol_high
     else label_vol_extreme)"

definition classify_amplitude :: "real \<Rightarrow> string" where
  "classify_amplitude avg_amp =
    (if avg_amp < 1.0 then label_amp_tiny
     else if avg_amp < 1.5 then label_amp_small
     else if avg_amp < 2.5 then label_amp_medium
     else if avg_amp < 4.0 then label_amp_large
     else label_amp_huge)"

definition classify_market_character :: "npfloat \<Rightarrow> string \<Rightarrow> string" where
  \<comment> \<open>the second argument, the trend direction, is not read\<close>
  "classify_market_character osc trend =
    (if np_gt osc (Fin 0.6) then label_ranging
     else if np_gt osc (Fin 0.3) then label_weak_trend
     else label_strong_trend)"

definition daily_returns :: "real list \<Rightarrow> npfloat list" where
  \<comment> \<open>\<^verbatim>\<open>np.diff(close_prices) / close_prices[:-1]\<close>\<close>
  "daily_returns cs =
    map2 (\<lambda>d c. np_div (Fin d) (Fin c)) (map2 (\<lambda>a b. b - a) (butlast cs) (tl cs)) (butlast cs)"

text \<open>
  \<^verbatim>\<open>analyze_etf_characteristics\<close>. The data frame is the list of its rows, so
  \<^verbatim>\<open>historical_data.empty\<close> is \<open>hd = []\<close>. The clock is the parameter \<open>now\<close>, and the
  dates stay the values of the column (\<^verbatim>\<open>strftime\<close> only prints them). Past the guard
  the arrays are not empty and every library error is caught where it arises, so the outer
  \<^verbatim>\<open>except\<close> branch has no counterpart here.
\<close>

definition analyze_etf_characteristics :: "numeric_library \<Rightarrow> string \<Rightarrow> bar list \<Rightarrow> analysis_result" where
  "analyze_etf_characteristics lib now historical_data =
    (if historical_data = [] \<or> length historical_data < 20 then
       empty_dict\<lparr>error := Some msg_insufficient_data,
                  data_points := Some (length historical_data)\<rparr>
     else
       (let close_prices = map close historical_data;
            volumes = map vol historical_data;
            amplitudes = map amplitude historical_data;
            vola = np_mul (np_mul (np_std_ext (daily_returns close_prices)) (Fin (sqrt 252))) (Fin 100);
            avg_amp = mean amplitudes;
            avg_vol = mean volumes;
            slope = calculate_trend_slope lib close_prices;
            direction = determine_trend_direction slope;
            osc = calculate_oscillation_score close_prices amplitudes
        in \<lparr>error = None,
            current_price = Some (last close_prices),
            avg_price = Some (mean close_prices),
            price_std = Some (std close_prices),
            price_range = Some (Max (set close_prices) - Min (set close_prices)),
            volatility = Some vola,
            volatility_level = Some (classify_volatility vola),
            avg_amplitude = Some avg_amp,
            max_amplitude = Some (Max (set amplitudes)),
            min_amplitude = Some (Min (set amplitudes)),
            amplitude_std = Some (std amplitudes),
            amplitude_level = Some (classify_amplitude avg_amp),
            avg_volume = Some avg_vol,
            volume_std = Some (std volumes),
            liquidity_score = Some (calculate_liquidity_score volumes avg_vol),
            trend_slope = Some slope,
            trend_direction = Some direction,
            oscillation_score = Some osc,
            market_character = Some (classify_market_character osc direction),
            price_distribution = Some (analyze_price_distribution lib close_prices),
            data_points = Some (length historical_data),
            start_date = Some (Min (set (map trade_date historical_data))),
            end_date = Some (Max (set (map trade_date historical_data))),
            analysis_date = Some now\<rparr>))"

subsection \<open>Concrete inputs\<close>

text \<open>
  The scenario of the specification: mean amplitude 2.5, volatility 20, a ranging market,
  liquidity score 0.8 and an average volume of two million, with grid parameters inside
  the bands the medium tier computes (0.40 to 0.50, and 8 to 16 levels) and a frequency
  match of 0.9.
\<close>

definition scenario_analysis :: analysis_result where
  "scenario_analysis = empty_dict\<lparr>avg_amplitude := Some 2.5, volatility := Some (Fin 20),
     market_character := Some label_ranging, liquidity_score := Some (Fin 0.8),
     avg_volume := Some 2000000\<rparr>"

definition scenario_params :: grid_params where
  "scenario_params = \<lparr>price_range_ratio = Some 0.45, grid_count = Some 10,
     frequency_match_score = Some 0.9, predicted_daily_triggers = Some 2.5\<rparr>"

definition sample_bar :: bar where
  "sample_bar = \<lparr>trade_date = 20240102, close = 1, vol = 1000000, amplitude = 2\<rparr>"

definition failing_library :: numeric_library where
  \<comment> \<open>a library all of whose routines raise\<close>
  "failing_library = \<lparr>np_polyfit = (\<lambda>xs ys deg. Inl LinAlgError),
     np_percentile = (\<lambda>xs qs. Inl ValueError),
     stats_skew = (\<lambda>xs. Inl ImportError),
     stats_kurtosis = (\<lambda>xs. Inl ImportError)\<rparr>"

section \<open>Properties\<close>

subsection \<open>Auxiliary facts\<close>

lemma market_labels_distinct:
  "label_ranging \<noteq> label_weak_trend" "label_ranging \<noteq> label_strong_trend"
  "label_weak_trend \<noteq> label_strong_trend" "label_weak_trend \<noteq> label_ranging"
  "label_strong_trend \<noteq> label_ranging" "label_strong_trend \<noteq> label_weak_trend"
  by (simp_all add: label_ranging_def label_weak_trend_def label_strong_trend_def)

lemma price_range_fields:
  "base_range (calculate_optimal_price_range a t) = a * (t * 1.2) * 1.5"
  "max_range (calculate_optimal_price_range a t) = min 0.50 (a * (t * 1.2) * 1.5 * 1.3)"
  "min_range (calculate_optimal_price_range a t) =
     (if max 0.02 (a * (t * 1.2) * 1.5 * 0.8) \<ge> min 0.50 (a * (t * 1.2) * 1.5 * 1.3)
      then min 0.50 (a * (t * 1.2) * 1.5 * 1.3) * 0.8
      else max 0.02 (a * (t * 1.2) * 1.5 * 0.8))"
  by (simp_all only: calculate_optimal_price_range_def Let_def optimal_range.simps)

lemma target_positive: "0 < get_or (map_of target_daily_frequencies f) 2.5"
  by (simp add: target_daily_frequencies_def get_or_def)

lemma price_band_by_base:
  assumes "b = a * (t * 1.2) * 1.5"
  shows "base_range (calculate_optimal_price_range a t) = b"
    and "max_range (calculate_optimal_price_range a t) = min 0.50 (b * 1.3)"
    and "min_range (calculate_optimal_price_range a t) =
       (if max 0.02 (b * 0.8) \<ge> min 0.50 (b * 1.3) then min 0.50 (b * 1.3) * 0.8
        else max 0.02 (b * 0.8))"
  unfolding price_range_fields assms by (rule refl)+

lemma price_band_ordered:
  assumes "0 \<le> a" "0 < t"
  shows "min_range (calculate_optimal_price_range a t) \<le> max_range (calculate_optimal_price_range a t)"
proof -
  define b where "b = a * (t * 1.2) * 1.5"
  have b0: "0 \<le> b" using assms by (simp add: b_def)
  show ?thesis unfolding price_band_by_base[OF b_def] using b0
    by (auto simp: min_def max_def split: if_splits)
qed

lemma count_band_ordered:
  "min_count (calculate_optimal_grid_count f t b a) < max_count (calculate_optimal_grid_count f t b a)"
  by (auto simp: calculate_optimal_grid_count_def count_band_try_def default_count_band_def
      default_ranges_def get_or_def map_sum_def split: sum.splits prod.splits if_splits)

lemma base_count_of_fail: "a = 0 \<or> t = 0 \<Longrightarrow> base_count_of b a t = Inl ZeroDivisionError"
  by (auto simp: base_count_of_def py_truediv_def)

lemma base_count_of_ok: "a \<noteq> 0 \<Longrightarrow> t \<noteq> 0 \<Longrightarrow> base_count_of b a t = Inr (py_int (b / (a / t)))"
  by (auto simp: base_count_of_def py_truediv_def)

lemma base_count_of_error:
  "base_count_of b a t = Inl e \<Longrightarrow> e = ZeroDivisionError \<and> (a = 0 \<or> t = 0)"
  by (auto simp: base_count_of_def py_truediv_def split: if_splits)

lemma count_band_try_Inl_iff:
  "(count_band_try f t b a = Inl e) = (base_count_of b a t = Inl e)"
  by (cases "base_count_of b a t") (auto simp: count_band_try_def)

lemma mean_nonneg: "(\<And>x. x \<in> set xs \<Longrightarrow> 0 \<le> x) \<Longrightarrow> 0 \<le> mean xs"
  by (simp add: mean_def sum_list_nonneg)

lemma std_nonneg: "0 \<le> std xs"
proof -
  have "0 \<le> mean (map (\<lambda>x. (x - mean xs) ^ 2) xs)"
    by (rule mean_nonneg) auto
  then show ?thesis by (simp add: std_def)
qed

lemma py_min_one_Fin: "py_min (Fin 1) (Fin y) = Fin (min 1 y)"
  by (simp add: py_min_def min_def)

lemma py_min_one_special: "py_min (Fin 1) NaN = Fin 1" "py_min (Fin 1) PInf = Fin 1"
  by (simp_all add: py_min_def)

lemma capped_cv_in_unit_interval:
  assumes "\<And>x. x \<in> set xs \<Longrightarrow> 0 \<le> x"
  shows "\<exists>c. py_min (Fin 1) (np_div (np_std xs) (np_mean xs)) = Fin c \<and> 0 \<le> c \<and> c \<le> 1"
proof (cases "xs = []")
  case True
  then show ?thesis by (simp add: np_std_def np_mean_def py_min_one_special)
next
  case False
  have m: "0 \<le> mean xs" using assms by (rule mean_nonneg)
  show ?thesis
  proof (cases "mean xs = 0")
    case True
    with False show ?thesis
      using std_nonneg[of xs]
      by (auto simp: np_std_def np_mean_def signed_inf_def py_min_one_special)
  next
    case nz: False
    with False m show ?thesis
      using std_nonneg[of xs]
      by (simp add: np_std_def np_mean_def py_min_one_Fin)
  qed
qed

lemma half_sum_nonneg: "0 \<le> x \<Longrightarrow> 0 \<le> y \<Longrightarrow> 0 \<le> (x * 10 + y) / (2::real)"
  by simp

lemma weighted_halves:
  "0 \<le> c \<Longrightarrow> c \<le> 1 \<Longrightarrow> 0 \<le> d \<Longrightarrow> d \<le> 1 \<Longrightarrow>
     0 \<le> (1 - c) * 0.5 + d * 0.5 \<and> (1 - c) * 0.5 + d * 0.5 \<le> (1::real)"
  by (simp add: field_simps)

subsection \<open>Insufficient data\<close>

text \<open>
  Claim C2. For a series of fewer than 20 rows, the empty one included, the analyzer
  returns, as a regular result, the error record: its \<^verbatim>\<open>data_points\<close> is the length of
  the series, and it has the keys \<^verbatim>\<open>error\<close> and \<^verbatim>\<open>data_points\<close> and no statistic.
\<close>

theorem analyze_insufficient_data:
  assumes "length series < 20"
  shows "analyze_etf_characteristics lib now series =
           empty_dict\<lparr>error := Some msg_insufficient_data, data_points := Some (length series)\<rparr>"
  using assms by (simp add: analyze_etf_characteristics_def)

theorem analyze_insufficient_data_witness:
  "analyze_etf_characteristics failing_library [] [] =
     empty_dict\<lparr>error := Some msg_insufficient_data, data_points := Some 0\<rparr> \<and>
   data_points (analyze_etf_characteristics failing_library [] (replicate 19 sample_bar)) = Some 19 \<and>
   avg_price (analyze_etf_characteristics failing_library [] (replicate 19 sample_bar)) = None \<and>
   volatility (analyze_etf_characteristics failing_library [] (replicate 19 sample_bar)) = None"
  using analyze_insufficient_data[of "[]" failing_library "[]"]
    analyze_insufficient_data[of "replicate 19 sample_bar" failing_library "[]"]
  by (simp add: empty_dict_def)

subsection \<open>The price-range band\<close>

text \<open>
  Claim C3 says that the band always satisfies 0.02 \<le> min_range < max_range \<le> 0.50, the
  floor of 2 percent being the one the source's comment gives for \<^verbatim>\<open>min_range\<close>
  (the minimum that covers the trading cost). The code does not keep it. For a mean
  amplitude of 0.5 percent (0.005) at one trigger a day the base range is 0.009, so the
  ceiling 1.3 \<times> 0.009 = 0.0117 lies below the floor, and the adjustment that is to
  restore min_range < max_range lowers the minimum to 0.8 \<times> 0.0117 = 0.00936, below
  0.02. For a mean amplitude of 0 the same adjustment leaves the band at 0 to 0, so
  there the order it is to ensure fails as well.
\<close>

theorem price_band_floor_broken:
  "calculate_optimal_price_range (1 / 200) 1 =
     \<lparr>base_range = 9 / 1000, min_range = 117 / 12500, max_range = 117 / 10000,
      calculation_basis = Formula (1 / 200) (6 / 5) (3 / 2)\<rparr> \<and>
   min_range (calculate_optimal_price_range (1 / 200) 1) < 0.02 \<and>
   calculate_optimal_price_range 0 1 =
     \<lparr>base_range = 0, min_range = 0, max_range = 0,
      calculation_basis = Formula 0 (6 / 5) (3 / 2)\<rparr>"
  by (simp add: calculate_optimal_price_range_def Let_def)

subsection \<open>The market character\<close>

text \<open>
  Claim C6. For a real oscillation score s the classifier returns the label "ranging"
  exactly when s > 0.6, "weak trend" exactly when 0.3 < s \<le> 0.6, and "strong trend"
  exactly when s \<le> 0.3; the thresholds are tested in this order, each with a strict
  comparison.
\<close>

theorem classify_market_character_thresholds:
  "(classify_market_character (Fin s) direction = label_ranging \<longleftrightarrow> 0.6 < s) \<and>
   (classify_market_character (Fin s) direction = label_weak_trend \<longleftrightarrow> 0.3 < s \<and> s \<le> 0.6) \<and>
   (classify_market_character (Fin s) direction = label_strong_trend \<longleftrightarrow> s \<le> 0.3)"
  by (auto simp: classify_market_character_def np_gt_def market_labels_distinct)

theorem classify_market_character_thresholds_witness:
  "classify_market_character (Fin 0.6) [] = label_weak_trend \<and>
   classify_market_character (Fin 0.3) [] = label_strong_trend \<and>
   classify_market_character (Fin 0.61) [] = label_ranging"
  using classify_market_character_thresholds[of "0.6" "[]"]
    classify_market_character_thresholds[of "0.3" "[]"]
    classify_market_character_thresholds[of "0.61" "[]"]
  by simp

subsection \<open>The two scores of the analyzer\<close>

text \<open>
  Claim C7. For price and amplitude series with positive means the oscillation score is a
  finite number in [0, 1]; for a series of volumes that are not negative, with the
  average volume the analyzer passes (which then is not negative either), the liquidity
  score is a finite number in [0, 1].
\<close>

theorem scores_in_unit_interval:
  assumes "prices \<noteq> []" "0 < mean prices" "amplitudes \<noteq> []" "0 < mean amplitudes"
      and "\<forall>v \<in> set volumes. 0 \<le> v" "0 \<le> avg_vol"
  shows "(\<exists>r. calculate_oscillation_score prices amplitudes = Fin r \<and> 0 \<le> r \<and> r \<le> 1) \<and>
         (\<exists>r. calculate_liquidity_score volumes avg_vol = Fin r \<and> 0 \<le> r \<and> r \<le> 1)"
proof
  have p: "0 \<le> std prices / mean prices" and a: "0 \<le> std amplitudes / mean amplitudes"
    using assms std_nonneg[of prices] std_nonneg[of amplitudes] by simp_all
  have "calculate_oscillation_score prices amplitudes =
      Fin (min 1 ((std prices / mean prices * 10 + std amplitudes / mean amplitudes) / 2))"
    using assms
    by (simp add: calculate_oscillation_score_def np_std_def np_mean_def py_min_one_Fin Let_def)
  moreover have "0 \<le> (std prices / mean prices * 10 + std amplitudes / mean amplitudes) / 2"
    by (rule half_sum_nonneg[OF p a])
  ultimately show "\<exists>r. calculate_oscillation_score prices amplitudes = Fin r \<and> 0 \<le> r \<and> r \<le> 1"
    by simp
next
  obtain c where c: "py_min (Fin 1) (np_div (np_std volumes) (np_mean volumes)) = Fin c"
      "0 \<le> c" "c \<le> 1"
    using capped_cv_in_unit_interval[of volumes] assms(5) by blast
  have "calculate_liquidity_score volumes avg_vol =
      Fin ((1 - c) * 0.5 + min 1 (avg_vol / 1000000) * 0.5)"
    using c(1) by (simp add: calculate_liquidity_score_def Let_def np_sub_def)
  moreover have "0 \<le> min 1 (avg_vol / 1000000)" "min 1 (avg_vol / 1000000) \<le> 1"
    using assms(6) by simp_all
  then have "0 \<le> (1 - c) * 0.5 + min 1 (avg_vol / 1000000) * 0.5 \<and>
       (1 - c) * 0.5 + min 1 (avg_vol / 1000000) * 0.5 \<le> 1"
    using c(2,3) by (intro weighted_halves)
  ultimately show "\<exists>r. calculate_liquidity_score volumes avg_vol = Fin r \<and> 0 \<le> r \<and> r \<le> 1"
    by blast
qed

theorem scores_in_unit_interval_witness:
  "calculate_oscillation_score [1, 3] [1, 3] = Fin 1 \<and>
   calculate_liquidity_score [1, 3] 2 = Fin (1 / 4 + 1 / 1000000) \<and>
   calculate_liquidity_score [0, 0] 0 = Fin 0"
  using scores_in_unit_interval[of "[1, 3]" "[1, 3]" "[0, 0]" 0]
    scores_in_unit_interval[of "[1, 3]" "[1, 3]" "[1, 3]" 2]
  by (simp add: calculate_oscillation_score_def calculate_liquidity_score_def np_std_def
      np_mean_def std_def mean_def py_min_def np_sub_def signed_inf_def)

subsection \<open>The grid-count band\<close>

text \<open>
  Claim C8. For each of the three frequency tiers, whenever the computation of the
  grid-count band fails, which it does for a mean amplitude of 0 (a division by zero), the
  calculator returns the fixed default band of the tier: 12 to 25 for high, 6 to 15 for
  medium and 3 to 8 for low, with the midpoint as the base count. No error leaves the
  calculator.
\<close>

theorem grid_count_failure_falls_back:
  assumes tier: "f = ''high'' \<or> f = ''medium'' \<or> f = ''low''"
      and fails: "a = 0 \<or> count_band_try f t b a = Inl e"
  shows "count_band_try f t b a = Inl ZeroDivisionError \<and>
         calculate_optimal_grid_count f t b a =
           \<lparr>base_count = (if f = ''high'' then 18 else if f = ''medium'' then 10 else 5),
            min_count = (if f = ''high'' then 12 else if f = ''medium'' then 6 else 3),
            max_count = (if f = ''high'' then 25 else if f = ''medium'' then 15 else 8),
            frequency_type = f\<rparr>"
proof -
  have "base_count_of b a t = Inl ZeroDivisionError"
    using fails base_count_of_fail[of a t b] base_count_of_error[of b a t e]
    by (auto simp: count_band_try_Inl_iff)
  then have 1: "count_band_try f t b a = Inl ZeroDivisionError"
    by (simp add: count_band_try_Inl_iff)
  have 2: "default_count_band f =
           \<lparr>base_count = (if f = ''high'' then 18 else if f = ''medium'' then 10 else 5),
            min_count = (if f = ''high'' then 12 else if f = ''medium'' then 6 else 3),
            max_count = (if f = ''high'' then 25 else if f = ''medium'' then 15 else 8),
            frequency_type = f\<rparr>"
    using tier by (auto simp: default_count_band_def default_ranges_def get_or_def)
  show ?thesis using 1 2 by (simp add: calculate_optimal_grid_count_def)
qed

theorem grid_count_failure_falls_back_witness:
  "count_band_try ''high'' 5.5 0 0 = Inl ZeroDivisionError \<and>
   calculate_optimal_grid_count ''high'' 5.5 0 0 =
     \<lparr>base_count = 18, min_count = 12, max_count = 25, frequency_type = ''high''\<rparr> \<and>
   calculate_optimal_grid_count ''medium'' 2.5 0 0 =
     \<lparr>base_count = 10, min_count = 6, max_count = 15, frequency_type = ''medium''\<rparr> \<and>
   calculate_optimal_grid_count ''low'' 1 0 0 =
     \<lparr>base_count = 5, min_count = 3, max_count = 8, frequency_type = ''low''\<rparr>"
  using grid_count_failure_falls_back[of "''high''" 0 "5.5" 0 ZeroDivisionError]
    grid_count_failure_falls_back[of "''medium''" 0 "2.5" 0 ZeroDivisionError]
    grid_count_failure_falls_back[of "''low''" 0 1 0 ZeroDivisionError]
  by simp

text \<open>
  Claim C9. A frequency string outside high, medium and low is treated as two different
  tiers. The target trigger count falls back to the medium value 2.5, and the price-range
  band is computed from it. The grid-count band is computed, from the same 2.5, with the
  offsets and caps of the low tier: its minimum is max(3, base - 2) and its maximum
  min(10, base + 3), raised to minimum + 3 when the minimum reaches it. Only when that
  computation fails is the band the default of the medium tier, 6 to 15.
\<close>

theorem unknown_frequency_mixes_tiers:
  assumes "f \<noteq> ''high''" "f \<noteq> ''medium''" "f \<noteq> ''low''"
  shows "target_triggers (frequency_matching (evaluate_grid_params_with_frequency_matching ar gp f)) = 2.5 \<and>
         range_optimal (range_evaluation (evaluate_grid_params_with_frequency_matching ar gp f)) =
           calculate_optimal_price_range (get_or (avg_amplitude ar) 0.02) 2.5 \<and>
         count_optimal (count_evaluation (evaluate_grid_params_with_frequency_matching ar gp f)) =
           calculate_optimal_grid_count f 2.5
             (base_range (calculate_optimal_price_range (get_or (avg_amplitude ar) 0.02) 2.5))
             (get_or (avg_amplitude ar) 0.02) \<and>
         (a \<noteq> 0 \<and> t \<noteq> 0 \<longrightarrow>
            calculate_optimal_grid_count f t b a =
              \<lparr>base_count = py_int (b / (a / t)),
               min_count = max 3 (py_int (b / (a / t)) - 2),
               max_count = (if max 3 (py_int (b / (a / t)) - 2) \<ge> min 10 (py_int (b / (a / t)) + 3)
                            then max 3 (py_int (b / (a / t)) - 2) + 3
                            else min 10 (py_int (b / (a / t)) + 3)),
               frequency_type = f\<rparr>) \<and>
         (a = 0 \<or> t = 0 \<longrightarrow>
            calculate_optimal_grid_count f t b a =
              \<lparr>base_count = 10, min_count = 6, max_count = 15, frequency_type = f\<rparr>)"
proof -
  have tt: "get_or (map_of target_daily_frequencies f) (5 / 2) = (5 / 2 :: real)"
    using assms by (simp add: target_daily_frequencies_def get_or_def)
  have 1: "target_triggers (frequency_matching (evaluate_grid_params_with_frequency_matching ar gp f)) = 2.5"
    by (simp add: evaluate_grid_params_with_frequency_matching_def Let_def tt)
  have 2: "range_optimal (range_evaluation (evaluate_grid_params_with_frequency_matching ar gp f)) =
          calculate_optimal_price_range (get_or (avg_amplitude ar) 0.02) 2.5"
    by (simp add: evaluate_grid_params_with_frequency_matching_def Let_def tt)
  have 3: "count_optimal (count_evaluation (evaluate_grid_params_with_frequency_matching ar gp f)) =
          calculate_optimal_grid_count f 2.5
            (base_range (calculate_optimal_price_range (get_or (avg_amplitude ar) 0.02) 2.5))
            (get_or (avg_amplitude ar) 0.02)"
    by (simp add: evaluate_grid_params_with_frequency_matching_def Let_def tt)
  have 4: "a \<noteq> 0 \<and> t \<noteq> 0 \<longrightarrow> calculate_optimal_grid_count f t b a =
          \<lparr>base_count = py_int (b / (a / t)),
           min_count = max 3 (py_int (b / (a / t)) - 2),
           max_count = (if max 3 (py_int (b / (a / t)) - 2) \<ge> min 10 (py_int (b / (a / t)) + 3)
                        then max 3 (py_int (b / (a / t)) - 2) + 3
                        else min 10 (py_int (b / (a / t)) + 3)),
           frequency_type = f\<rparr>"
    using assms by (simp add: calculate_optimal_grid_count_def count_band_try_def base_count_of_ok)
  have 5: "a = 0 \<or> t = 0 \<longrightarrow> calculate_optimal_grid_count f t b a =
          \<lparr>base_count = 10, min_count = 6, max_count = 15, frequency_type = f\<rparr>"
    using assms by (auto simp: calculate_optimal_grid_count_def count_band_try_def base_count_of_fail
        default_count_band_def default_ranges_def get_or_def)
  from 1 2 3 4 5 show ?thesis by blast
qed

theorem unknown_frequency_mixes_tiers_witness:
  "target_triggers (frequency_matching
     (evaluate_grid_params_with_frequency_matching scenario_analysis scenario_params ''weekly'')) = 2.5 \<and>
   calculate_optimal_grid_count ''weekly'' (5 / 2) (45 / 4) (5 / 2) =
     \<lparr>base_count = 11, min_count = 9, max_count = 10, frequency_type = ''weekly''\<rparr> \<and>
   calculate_optimal_grid_count ''weekly'' (5 / 2) 0 0 =
     \<lparr>base_count = 10, min_count = 6, max_count = 15, frequency_type = ''weekly''\<rparr>"
  using unknown_frequency_mixes_tiers[of "''weekly''" scenario_analysis scenario_params "5 / 2" "5 / 2" "45 / 4"]
    unknown_frequency_mixes_tiers[of "''weekly''" scenario_analysis scenario_params 0 "5 / 2" 0]
  by (simp add: py_int_def)

subsection \<open>The round trip through the scorer\<close>

text \<open>
  Claim C4. For a mean amplitude (a swing between a high and a low, so not negative) and
  any frequency, the ends of the price-range band and of the grid-count band that the
  optimal-parameter calculator returns, given back to the scorers as the actual price
  range ratio and the actual grid count, each score the perfect 5.
\<close>

theorem band_round_trip_scores_five:
  fixes a :: real and f :: string
  defines "t \<equiv> get_or (map_of target_daily_frequencies f) 2.5"
  defines "R \<equiv> calculate_optimal_price_range a t"
  defines "C \<equiv> calculate_optimal_grid_count f t (base_range R) a"
  assumes "0 \<le> a"
  shows "score_price_range (min_range R) R = 5 \<and> score_price_range (max_range R) R = 5 \<and>
         score_grid_count (min_count C) C = 5 \<and> score_grid_count (max_count C) C = 5"
proof -
  have "0 < t" unfolding t_def by (rule target_positive)
  then have "min_range R \<le> max_range R"
    unfolding R_def using assms(4) by (intro price_band_ordered)
  moreover have "min_count C < max_count C"
    unfolding C_def by (rule count_band_ordered)
  ultimately show ?thesis
    by (simp add: score_price_range_def score_grid_count_def)
qed

theorem band_round_trip_scores_five_witness:
  "(0::real) \<le> 5 / 2 \<and>
   calculate_optimal_price_range (5 / 2) (5 / 2) =
     \<lparr>base_range = 45 / 4, min_range = 2 / 5, max_range = 1 / 2,
      calculation_basis = Formula (5 / 2) 3 (3 / 2)\<rparr> \<and>
   score_price_range (2 / 5) (calculate_optimal_price_range (5 / 2) (5 / 2)) = 5 \<and>
   score_price_range (1 / 2) (calculate_optimal_price_range (5 / 2) (5 / 2)) = 5 \<and>
   calculate_optimal_grid_count ''medium'' (5 / 2) (45 / 4) (5 / 2) =
     \<lparr>base_count = 11, min_count = 8, max_count = 16, frequency_type = ''medium''\<rparr> \<and>
   score_grid_count 8 (calculate_optimal_grid_count ''medium'' (5 / 2) (45 / 4) (5 / 2)) = 5 \<and>
   score_grid_count 16 (calculate_optimal_grid_count ''medium'' (5 / 2) (45 / 4) (5 / 2)) = 5"
proof -
  have t: "get_or (map_of target_daily_frequencies ''medium'') 2.5 = (5 / 2 :: real)"
    by (simp add: target_daily_frequencies_def get_or_def)
  have R: "calculate_optimal_price_range (5 / 2) (5 / 2) =
     \<lparr>base_range = 45 / 4, min_range = 2 / 5, max_range = 1 / 2,
      calculation_basis = Formula (5 / 2) 3 (3 / 2)\<rparr>"
    by (simp add: calculate_optimal_price_range_def Let_def)
  have C: "calculate_optimal_grid_count ''medium'' (5 / 2) (45 / 4) (5 / 2) =
     \<lparr>base_count = 11, min_count = 8, max_count = 16, frequency_type = ''medium''\<rparr>"
    by (simp add: calculate_optimal_grid_count_def count_band_try_def base_count_of_def
        py_truediv_def py_int_def)
  from band_round_trip_scores_five[of "5 / 2" "''medium''"] show ?thesis
    unfolding t R by (simp add: C)
qed

subsection \<open>The grid-parameter evaluation inside the verdict\<close>

lemma grid_eval_fields:
  fixes ar gp f
  defines "t \<equiv> get_or (map_of target_daily_frequencies f) 2.5"
  defines "a \<equiv> get_or (avg_amplitude ar) 0.02"
  defines "R \<equiv> calculate_optimal_price_range a t"
  defines "C \<equiv> calculate_optimal_grid_count f t (base_range R) a"
  defines "fms \<equiv> get_or (frequency_match_score gp) 0"
  shows "total_score (evaluate_grid_params_with_frequency_matching ar gp f) =
      min 10 (score_price_range (get_or (price_range_ratio gp) 0) R
            + score_grid_count (get_or (grid_count gp) 0) C
            + (if fms > 0.8 then 2 else if fms > 0.6 then 1 else 0))"
    and "range_optimal (range_evaluation (evaluate_grid_params_with_frequency_matching ar gp f)) = R"
    and "count_optimal (count_evaluation (evaluate_grid_params_with_frequency_matching ar gp f)) = C"
  unfolding t_def a_def R_def C_def fms_def
  by (simp_all only: evaluate_grid_params_with_frequency_matching_def Let_def
      grid_params_evaluation.simps range_evaluation.simps count_evaluation.simps)

lemma grid_eval_warnings:
  fixes ar gp f
  defines "t \<equiv> get_or (map_of target_daily_frequencies f) 2.5"
  defines "a \<equiv> get_or (avg_amplitude ar) 0.02"
  defines "R \<equiv> calculate_optimal_price_range a t"
  defines "C \<equiv> calculate_optimal_grid_count f t (base_range R) a"
  defines "x \<equiv> get_or (price_range_ratio gp) 0"
  defines "n \<equiv> get_or (grid_count gp) 0"
  defines "fms \<equiv> get_or (frequency_match_score gp) 0"
  shows "eval_warnings (evaluate_grid_params_with_frequency_matching ar gp f) =
      (if score_price_range x R < 3 then
         (if x < min_range R then [RangeTooSmall x (min_range R) (max_range R)]
          else [RangeTooLarge x (min_range R) (max_range R)])
       else [])
    @ (if score_grid_count n C < 3 then
         (if n < min_count C then [CountTooFew n (min_count C) (max_count C)]
          else [CountTooMany n (min_count C) (max_count C)])
       else [])
    @ (if fms < 0.6 then [FrequencyMismatch fms] else [])"
  unfolding t_def a_def R_def C_def x_def n_def fms_def
  by (simp only: evaluate_grid_params_with_frequency_matching_def Let_def
      grid_params_evaluation.simps)

lemma grid_eval_warnings_not_sections:
  "set (eval_warnings (evaluate_grid_params_with_frequency_matching ar gp f))
     \<inter> {AmplitudeLow, VolatilityLow, VolatilityHigh, LiquidityFair} = {}"
  unfolding grid_eval_warnings by (simp split: if_splits)

lemma section_warnings:
  "set (snd (snd (amplitude_section a))) \<subseteq> {AmplitudeLow, VolatilityLow, VolatilityHigh, LiquidityFair}"
  "set (snd (snd (volatility_section v))) \<subseteq> {AmplitudeLow, VolatilityLow, VolatilityHigh, LiquidityFair}"
  "set (snd (snd (market_section m))) \<subseteq> {AmplitudeLow, VolatilityLow, VolatilityHigh, LiquidityFair}"
  "set (snd (snd (liquidity_section l av))) \<subseteq> {AmplitudeLow, VolatilityLow, VolatilityHigh, LiquidityFair}"
  by (simp_all add: amplitude_section_def volatility_section_def market_section_def
      liquidity_section_def)

lemma verdict_warnings:
  assumes "error ar = None"
  shows "warnings (evaluate_adaptability ar gp f) =
    Some (snd (snd (amplitude_section (get_or (avg_amplitude ar) 0)))
        @ snd (snd (volatility_section (get_or (volatility ar) (Fin 0))))
        @ snd (snd (market_section (get_or (market_character ar) [])))
        @ snd (snd (liquidity_section (get_or (liquidity_score ar) (Fin 0)) (get_or (avg_volume ar) 0)))
        @ (if total_score (evaluate_grid_params_with_frequency_matching ar gp f) < 8
           then eval_warnings (evaluate_grid_params_with_frequency_matching ar gp f) else []))"
    and "grid_params_details (evaluate_adaptability ar gp f) =
           Some (evaluate_grid_params_with_frequency_matching ar gp f)"
  using assms by (simp_all add: evaluate_adaptability_def Let_def case_prod_beta)

lemma get_or_simps: "get_or (Some x) d = x" "get_or None d = d"
  by (simp_all add: get_or_def)

lemma scenario_bands:
  "get_or (map_of target_daily_frequencies ''medium'') (5 / 2) = (5 / 2 :: real)"
  "calculate_optimal_price_range (5 / 2) (5 / 2) =
     \<lparr>base_range = 45 / 4, min_range = 2 / 5, max_range = 1 / 2,
      calculation_basis = Formula (5 / 2) 3 (3 / 2)\<rparr>"
  "calculate_optimal_grid_count ''medium'' (5 / 2) (45 / 4) (5 / 2) =
     \<lparr>base_count = 11, min_count = 8, max_count = 16, frequency_type = ''medium''\<rparr>"
  by (simp_all add: target_daily_frequencies_def get_or_def calculate_optimal_price_range_def
      Let_def calculate_optimal_grid_count_def count_band_try_def base_count_of_def
      py_truediv_def py_int_def)

lemma scenario_fields:
  "error scenario_analysis = None"
  "avg_amplitude scenario_analysis = Some (5 / 2)"
  "volatility scenario_analysis = Some (Fin 20)"
  "market_character scenario_analysis = Some label_ranging"
  "liquidity_score scenario_analysis = Some (Fin (4 / 5))"
  "avg_volume scenario_analysis = Some 2000000"
  by (simp_all add: scenario_analysis_def empty_dict_def)

subsection \<open>The verdict\<close>

text \<open>
  Claim C1. For an analysis result without an error, and any grid parameters and
  frequency, the verdict is suitable exactly when the total score is at least 60 and the
  list of disqualifying reasons is empty. So a score of 60 or more with a reason present
  gives an unsuitable verdict.
\<close>

theorem is_suitable_iff_score_and_no_reasons:
  assumes "error ar = None"
  shows "is_suitable (evaluate_adaptability ar gp f) \<longleftrightarrow>
           60 \<le> score (evaluate_adaptability ar gp f) \<and>
           reasons (evaluate_adaptability ar gp f) = Some []"
  using assms by (simp add: evaluate_adaptability_def Let_def case_prod_beta)

lemma scenario_total_ten:
  "total_score (evaluate_grid_params_with_frequency_matching
      (scenario_analysis\<lparr>market_character := mc\<rparr>) scenario_params ''medium'') = 10"
  unfolding grid_eval_fields
  by (simp add: scenario_fields scenario_params_def get_or_def scenario_bands
      target_daily_frequencies_def score_price_range_def score_grid_count_def)

theorem is_suitable_iff_score_and_no_reasons_witness:
  "error (scenario_analysis\<lparr>market_character := Some label_strong_trend\<rparr>) = None \<and>
   score (evaluate_adaptability (scenario_analysis\<lparr>market_character := Some label_strong_trend\<rparr>)
            scenario_params ''medium'') = 85 \<and>
   reasons (evaluate_adaptability (scenario_analysis\<lparr>market_character := Some label_strong_trend\<rparr>)
            scenario_params ''medium'') = Some [StrongTrend] \<and>
   \<not> is_suitable (evaluate_adaptability (scenario_analysis\<lparr>market_character := Some label_strong_trend\<rparr>)
            scenario_params ''medium'')"
proof -
  let ?ar = "scenario_analysis\<lparr>market_character := Some label_strong_trend\<rparr>"
  have e: "error ?ar = None"
    by (simp add: scenario_fields)
  have s: "score (evaluate_adaptability ?ar scenario_params ''medium'') = 85"
    by (simp add: evaluate_adaptability_def Let_def case_prod_beta scenario_total_ten
        scenario_fields get_or_def amplitude_section_def volatility_section_def
        market_section_def liquidity_section_def np_ge_def market_labels_distinct)
  have r: "reasons (evaluate_adaptability ?ar scenario_params ''medium'') = Some [StrongTrend]"
    by (simp add: evaluate_adaptability_def Let_def case_prod_beta
        scenario_fields get_or_def amplitude_section_def volatility_section_def
        market_section_def liquidity_section_def np_ge_def market_labels_distinct)
  from is_suitable_iff_score_and_no_reasons[OF e, of scenario_params "''medium''"] s r e
  show ?thesis by simp
qed

text \<open>
  Claim C5. For an analysis result with mean amplitude 2.5, volatility 20, the market
  character "ranging", liquidity score 0.8 and average volume 2,000,000, and grid
  parameters whose price range ratio and grid count lie inside the bands the evaluation
  computes, with a frequency match of 0.9, the verdict has the dimension scores 30, 25,
  20, 15 and 10, the total score 100, and is suitable. This holds for every frequency.
\<close>

theorem ideal_scenario_scores_100:
  fixes ar :: analysis_result and gp :: grid_params and f :: string
  defines "g \<equiv> evaluate_grid_params_with_frequency_matching ar gp f"
  assumes "error ar = None" and "avg_amplitude ar = Some 2.5"
      and "volatility ar = Some (Fin 20)" and "market_character ar = Some label_ranging"
      and "liquidity_score ar = Some (Fin 0.8)" and "avg_volume ar = Some 2000000"
      and "frequency_match_score gp = Some 0.9"
      and "price_range_ratio gp = Some x"
      and "min_range (range_optimal (range_evaluation g)) \<le> x"
      and "x \<le> max_range (range_optimal (range_evaluation g))"
      and "grid_count gp = Some n"
      and "min_count (count_optimal (count_evaluation g)) \<le> n"
      and "n \<le> max_count (count_optimal (count_evaluation g))"
  shows "score (evaluate_adaptability ar gp f) = 100 \<and>
         is_suitable (evaluate_adaptability ar gp f) \<and>
         dimension_scores (evaluate_adaptability ar gp f) =
           \<lparr>amplitude_score = 30, volatility_score = 25, market_score = 20,
            liquidity_points = 15, grid_params_score = 10\<rparr> \<and>
         reasons (evaluate_adaptability ar gp f) = Some []"
proof -
  have rs: "score_price_range (get_or (price_range_ratio gp) 0) (range_optimal (range_evaluation g)) = 5"
    using assms(9,10,11) by (simp add: score_price_range_def get_or_def)
  have cs: "score_grid_count (get_or (grid_count gp) 0) (count_optimal (count_evaluation g)) = 5"
    using assms(12,13,14) by (simp add: score_grid_count_def get_or_def)
  have "total_score g = min 10 (5 + 5 + 2)"
    using rs cs assms(8) unfolding g_def grid_eval_fields by (simp add: get_or_def)
  then have tot: "total_score (evaluate_grid_params_with_frequency_matching ar gp f) = 10"
    unfolding g_def by simp
  show ?thesis
    using assms(2-7)
    by (simp add: evaluate_adaptability_def Let_def case_prod_beta tot get_or_def
        amplitude_section_def volatility_section_def market_section_def
        liquidity_section_def np_ge_def)
qed

theorem ideal_scenario_scores_100_witness:
  "range_optimal (range_evaluation
      (evaluate_grid_params_with_frequency_matching scenario_analysis scenario_params ''medium'')) =
     \<lparr>base_range = 45 / 4, min_range = 2 / 5, max_range = 1 / 2,
      calculation_basis = Formula (5 / 2) 3 (3 / 2)\<rparr> \<and>
   count_optimal (count_evaluation
      (evaluate_grid_params_with_frequency_matching scenario_analysis scenario_params ''medium'')) =
     \<lparr>base_count = 11, min_count = 8, max_count = 16, frequency_type = ''medium''\<rparr> \<and>
   price_range_ratio scenario_params = Some (9 / 20) \<and>
   grid_count scenario_params = Some 10 \<and>
   score (evaluate_adaptability scenario_analysis scenario_params ''medium'') = 100 \<and>
   is_suitable (evaluate_adaptability scenario_analysis scenario_params ''medium'')"
proof -
  let ?g = "evaluate_grid_params_with_frequency_matching scenario_analysis scenario_params ''medium''"
  have R: "range_optimal (range_evaluation ?g) =
     \<lparr>base_range = 45 / 4, min_range = 2 / 5, max_range = 1 / 2,
      calculation_basis = Formula (5 / 2) 3 (3 / 2)\<rparr>"
    unfolding grid_eval_fields by (simp add: scenario_fields get_or_simps scenario_bands)
  have C: "count_optimal (count_evaluation ?g) =
     \<lparr>base_count = 11, min_count = 8, max_count = 16, frequency_type = ''medium''\<rparr>"
    unfolding grid_eval_fields by (simp add: scenario_fields get_or_simps scenario_bands)
  have p: "price_range_ratio scenario_params = Some (9 / 20)" "grid_count scenario_params = Some 10"
      "frequency_match_score scenario_params = Some 0.9"
    by (simp_all add: scenario_params_def)
  have "score (evaluate_adaptability scenario_analysis scenario_params ''medium'') = 100 \<and>
        is_suitable (evaluate_adaptability scenario_analysis scenario_params ''medium'')"
    using ideal_scenario_scores_100[of scenario_analysis scenario_params "9 / 20" "''medium''" 10]
    by (simp add: scenario_fields p R C)
  with R C p show ?thesis by simp
qed

text \<open>
  Claim C10. For an analysis result without an error, the warnings of the grid-parameter
  scorer (a range or a count to adjust, a frequency mismatch) are appended to the
  verdict's warnings exactly when the scorer's total score is below 8. The verdict's
  warnings are the warnings of the four scored dimensions followed by the scorer's
  warnings, or by nothing for a total of 8, 9 or 10; no scorer warning is one of the
  dimension warnings, so in the second case the scorer's warnings are not in the verdict.
\<close>

theorem scorer_warnings_copied_iff_below_8:
  fixes ar :: analysis_result and gp :: grid_params and f :: string
  defines "g \<equiv> evaluate_grid_params_with_frequency_matching ar gp f"
  assumes "error ar = None"
  shows "grid_params_details (evaluate_adaptability ar gp f) = Some g \<and>
         (\<exists>pre. set pre \<subseteq> {AmplitudeLow, VolatilityLow, VolatilityHigh, LiquidityFair} \<and>
            warnings (evaluate_adaptability ar gp f) =
              Some (pre @ (if total_score g < 8 then eval_warnings g else []))) \<and>
         set (eval_warnings g) \<inter> {AmplitudeLow, VolatilityLow, VolatilityHigh, LiquidityFair} = {}"
proof -
  let ?pre = "snd (snd (amplitude_section (get_or (avg_amplitude ar) 0)))
        @ snd (snd (volatility_section (get_or (volatility ar) (Fin 0))))
        @ snd (snd (market_section (get_or (market_character ar) [])))
        @ snd (snd (liquidity_section (get_or (liquidity_score ar) (Fin 0)) (get_or (avg_volume ar) 0)))"
  have 1: "set ?pre \<subseteq> {AmplitudeLow, VolatilityLow, VolatilityHigh, LiquidityFair}"
    using section_warnings(1)[of "get_or (avg_amplitude ar) 0"]
      section_warnings(2)[of "get_or (volatility ar) (Fin 0)"]
      section_warnings(3)[of "get_or (market_character ar) []"]
      section_warnings(4)[of "get_or (liquidity_score ar) (Fin 0)" "get_or (avg_volume ar) 0"]
    by simp
  have 2: "warnings (evaluate_adaptability ar gp f) =
      Some (?pre @ (if total_score g < 8 then eval_warnings g else []))"
    unfolding g_def using verdict_warnings(1)[OF assms(2), of gp f] by simp
  have 3: "grid_params_details (evaluate_adaptability ar gp f) = Some g"
    unfolding g_def by (rule verdict_warnings(2)[OF assms(2)])
  have 4: "set (eval_warnings g) \<inter> {AmplitudeLow, VolatilityLow, VolatilityHigh, LiquidityFair} = {}"
    unfolding g_def by (rule grid_eval_warnings_not_sections)
  from 1 2 3 4 show ?thesis by blast
qed

lemma scenario_sections_silent:
  "snd (snd (amplitude_section (5 / 2))) = []"
  "snd (snd (volatility_section (Fin 20))) = []"
  "snd (snd (market_section label_ranging)) = []"
  "snd (snd (liquidity_section (Fin (4 / 5)) 2000000)) = []"
  by (simp_all add: amplitude_section_def volatility_section_def market_section_def
      liquidity_section_def np_ge_def)

theorem scorer_warnings_copied_iff_below_8_witness:
  "total_score (evaluate_grid_params_with_frequency_matching scenario_analysis
      (scenario_params\<lparr>frequency_match_score := Some (1 / 2)\<rparr>) ''medium'') = 10 \<and>
   eval_warnings (evaluate_grid_params_with_frequency_matching scenario_analysis
      (scenario_params\<lparr>frequency_match_score := Some (1 / 2)\<rparr>) ''medium'') = [FrequencyMismatch (1 / 2)] \<and>
   warnings (evaluate_adaptability scenario_analysis
      (scenario_params\<lparr>frequency_match_score := Some (1 / 2)\<rparr>) ''medium'') = Some [] \<and>
   total_score (evaluate_grid_params_with_frequency_matching scenario_analysis
      (scenario_params\<lparr>price_range_ratio := Some 0, grid_count := Some 0\<rparr>) ''medium'') = 2 \<and>
   warnings (evaluate_adaptability scenario_analysis
      (scenario_params\<lparr>price_range_ratio := Some 0, grid_count := Some 0\<rparr>) ''medium'') =
     Some [RangeTooSmall 0 (2 / 5) (1 / 2), CountTooFew 0 8 16]"
proof -
  let ?hi = "scenario_params\<lparr>frequency_match_score := Some (1 / 2)\<rparr>"
  let ?lo = "scenario_params\<lparr>price_range_ratio := Some 0, grid_count := Some 0\<rparr>"
  have t_hi: "total_score (evaluate_grid_params_with_frequency_matching scenario_analysis ?hi ''medium'') = 10"
    unfolding grid_eval_fields
    by (simp add: scenario_fields scenario_params_def get_or_simps scenario_bands
        score_price_range_def score_grid_count_def)
  have w_hi: "eval_warnings (evaluate_grid_params_with_frequency_matching scenario_analysis ?hi ''medium'')
      = [FrequencyMismatch (1 / 2)]"
    unfolding grid_eval_warnings
    by (simp add: scenario_fields scenario_params_def get_or_simps scenario_bands
        score_price_range_def score_grid_count_def)
  have t_lo: "total_score (evaluate_grid_params_with_frequency_matching scenario_analysis ?lo ''medium'') = 2"
    unfolding grid_eval_fields
    by (simp add: scenario_fields scenario_params_def get_or_simps scenario_bands
        score_price_range_def score_grid_count_def py_truediv_def deviation_score_def)
  have w_lo: "eval_warnings (evaluate_grid_params_with_frequency_matching scenario_analysis ?lo ''medium'')
      = [RangeTooSmall 0 (2 / 5) (1 / 2), CountTooFew 0 8 16]"
    unfolding grid_eval_warnings
    by (simp add: scenario_fields scenario_params_def get_or_simps scenario_bands
        score_price_range_def score_grid_count_def py_truediv_def deviation_score_def)
  have v_hi: "warnings (evaluate_adaptability scenario_analysis ?hi ''medium'') = Some []"
    using scorer_warnings_copied_iff_below_8[of scenario_analysis ?hi "''medium''"]
    by (simp add: verdict_warnings scenario_fields get_or_simps scenario_sections_silent t_hi)
  have v_lo: "warnings (evaluate_adaptability scenario_analysis ?lo ''medium'') =
      Some [RangeTooSmall 0 (2 / 5) (1 / 2), CountTooFew 0 8 16]"
    by (simp add: verdict_warnings scenario_fields get_or_simps scenario_sections_silent t_lo w_lo)
  from t_hi w_hi v_hi t_lo v_lo show ?thesis by simp
qed

end
